theory Spec2Isabelle
  imports Complex_Main
begin

section \<open>JavaScript numbers\<close>

text \<open>
  Every number of \<^verbatim>\<open>sketch.js\<close> is an IEEE double. A finite double is modelled by the
  real number it denotes (rounding, overflow and the sign of zero are not modelled: a zero
  divisor counts as \<open>+0\<close>); the three non-finite values are kept apart, with the arithmetic
  ECMAScript gives them, because the validation guard of \<^verbatim>\<open>regenerateGeometry\<close> and the
  comparison \<^verbatim>\<open>!==\<close> of \<^verbatim>\<open>updateParams\<close> depend on them.
\<close>

datatype jsnum = Fin real | PosInf | NegInf | NaN

fun js_neg :: "jsnum \<Rightarrow> jsnum" where
  "js_neg (Fin a) = Fin (- a)"
| "js_neg PosInf = NegInf"
| "js_neg NegInf = PosInf"
| "js_neg NaN = NaN"

fun js_add :: "jsnum \<Rightarrow> jsnum \<Rightarrow> jsnum" where
  "js_add (Fin a) (Fin b) = Fin (a + b)"
| "js_add NaN _ = NaN"
| "js_add _ NaN = NaN"
| "js_add PosInf NegInf = NaN"
| "js_add NegInf PosInf = NaN"
| "js_add PosInf _ = PosInf"
| "js_add _ PosInf = PosInf"
| "js_add NegInf _ = NegInf"
| "js_add _ NegInf = NegInf"

definition js_sub :: "jsnum \<Rightarrow> jsnum \<Rightarrow> jsnum" where
  "js_sub a b = js_add a (js_neg b)"

fun js_mul :: "jsnum \<Rightarrow> jsnum \<Rightarrow> jsnum" where
  "js_mul (Fin a) (Fin b) = Fin (a * b)"
| "js_mul NaN _ = NaN"
| "js_mul _ NaN = NaN"
| "js_mul (Fin a) PosInf = (if a = 0 then NaN else if 0 < a then PosInf else NegInf)"
| "js_mul (Fin a) NegInf = (if a = 0 then NaN else if 0 < a then NegInf else PosInf)"
| "js_mul PosInf (Fin b) = (if b = 0 then NaN else if 0 < b then PosInf else NegInf)"
| "js_mul NegInf (Fin b) = (if b = 0 then NaN else if 0 < b then NegInf else PosInf)"
| "js_mul PosInf PosInf = PosInf"
| "js_mul PosInf NegInf = NegInf"
| "js_mul NegInf PosInf = NegInf"
| "js_mul NegInf NegInf = PosInf"

fun js_div :: "jsnum \<Rightarrow> jsnum \<Rightarrow> jsnum" where
  "js_div (Fin a) (Fin b) =
     (if b = 0 then (if a = 0 then NaN else if 0 < a then PosInf else NegInf)
      else Fin (a / b))"
| "js_div NaN _ = NaN"
| "js_div _ NaN = NaN"
| "js_div (Fin a) PosInf = Fin 0"
| "js_div (Fin a) NegInf = Fin 0"
| "js_div PosInf (Fin b) = (if 0 \<le> b then PosInf else NegInf)"
| "js_div NegInf (Fin b) = (if 0 \<le> b then NegInf else PosInf)"
| "js_div PosInf PosInf = NaN"
| "js_div PosInf NegInf = NaN"
| "js_div NegInf PosInf = NaN"
| "js_div NegInf NegInf = NaN"

text \<open>
  The remainder operator \<^verbatim>\<open>%\<close> truncates the quotient towards zero, so the result has
  the sign of the dividend.
\<close>

definition trunc :: "real \<Rightarrow> int" where
  "trunc x = (if 0 \<le> x then \<lfloor>x\<rfloor> else \<lceil>x\<rceil>)"

definition rem_trunc :: "real \<Rightarrow> real \<Rightarrow> real" where
  "rem_trunc a b = a - b * of_int (trunc (a / b))"

fun js_rem :: "jsnum \<Rightarrow> jsnum \<Rightarrow> jsnum" where
  "js_rem (Fin a) (Fin b) = (if b = 0 then NaN else Fin (rem_trunc a b))"
| "js_rem (Fin a) PosInf = Fin a"
| "js_rem (Fin a) NegInf = Fin a"
| "js_rem _ _ = NaN"

fun js_exp :: "jsnum \<Rightarrow> jsnum" where
  "js_exp (Fin a) = Fin (exp a)"
| "js_exp PosInf = PosInf"
| "js_exp NegInf = Fin 0"
| "js_exp NaN = NaN"

fun js_sin :: "jsnum \<Rightarrow> jsnum" where
  "js_sin (Fin a) = Fin (sin a)"
| "js_sin _ = NaN"

fun js_cos :: "jsnum \<Rightarrow> jsnum" where
  "js_cos (Fin a) = Fin (cos a)"
| "js_cos _ = NaN"

text \<open>\<^verbatim>\<open>Math.pow\<close> with the exponents the program uses (the literals 2 and 3).\<close>

definition js_pow :: "jsnum \<Rightarrow> nat \<Rightarrow> jsnum" where
  "js_pow x n =
     (if n = 0 then Fin 1
      else case x of
        Fin a \<Rightarrow> Fin (a ^ n)
      | PosInf \<Rightarrow> PosInf
      | NegInf \<Rightarrow> (if even n then PosInf else NegInf)
      | NaN \<Rightarrow> NaN)"

fun js_floor :: "jsnum \<Rightarrow> jsnum" where
  "js_floor (Fin a) = Fin (of_int \<lfloor>a\<rfloor>)"
| "js_floor x = x"

fun js_abs :: "jsnum \<Rightarrow> jsnum" where
  "js_abs (Fin a) = Fin \<bar>a\<bar>"
| "js_abs NaN = NaN"
| "js_abs _ = PosInf"

fun js_lt :: "jsnum \<Rightarrow> jsnum \<Rightarrow> bool" where
  "js_lt (Fin a) (Fin b) = (a < b)"
| "js_lt NaN _ = False"
| "js_lt _ NaN = False"
| "js_lt _ NegInf = False"
| "js_lt NegInf _ = True"
| "js_lt PosInf _ = False"
| "js_lt _ PosInf = True"

definition js_gt :: "jsnum \<Rightarrow> jsnum \<Rightarrow> bool" where
  "js_gt a b = js_lt b a"

text \<open>\<^verbatim>\<open>a !== b\<close> on numbers: \<^verbatim>\<open>NaN\<close> differs from everything, itself included.\<close>

definition js_sne :: "jsnum \<Rightarrow> jsnum \<Rightarrow> bool" where
  "js_sne a b = (a = NaN \<or> b = NaN \<or> a \<noteq> b)"

text \<open>\<^verbatim>\<open>isNaN(parseFloat(v))\<close> for a number \<open>v\<close>: the infinities print and parse back.\<close>

definition js_isNaN :: "jsnum \<Rightarrow> bool" where
  "js_isNaN v = (v = NaN)"

definition js_min :: "jsnum \<Rightarrow> jsnum \<Rightarrow> jsnum" where
  "js_min a b = (if a = NaN \<or> b = NaN then NaN else if js_lt a b then a else b)"

definition js_max :: "jsnum \<Rightarrow> jsnum \<Rightarrow> jsnum" where
  "js_max a b = (if a = NaN \<or> b = NaN then NaN else if js_lt a b then b else a)"

subsection \<open>The p5.js helpers the flower calls\<close>

text \<open>
  p5.js is a library outside the repository. Its helpers are written as its reference
  defines them: \<^verbatim>\<open>constrain(n, low, high) = Math.max(Math.min(n, high), low)\<close>,
  \<^verbatim>\<open>lerp(start, stop, amt) = amt * (stop - start) + start\<close>,
  \<^verbatim>\<open>radians(a) = a * PI / 180\<close>, and \<^verbatim>\<open>map\<close> rescales linearly and constrains the result
  when its last argument is true. The trigonometric functions take radians (the default
  angle mode, which the sketch never changes).
\<close>

definition constrain :: "jsnum \<Rightarrow> jsnum \<Rightarrow> jsnum \<Rightarrow> jsnum" where
  "constrain n low high = js_max (js_min n high) low"

definition lerp :: "jsnum \<Rightarrow> jsnum \<Rightarrow> jsnum \<Rightarrow> jsnum" where
  "lerp start stop amt = js_add (js_mul amt (js_sub stop start)) start"

definition radians :: "jsnum \<Rightarrow> jsnum" where
  "radians angle = js_mul angle (Fin (pi / 180))"

definition p5_map :: "jsnum \<Rightarrow> jsnum \<Rightarrow> jsnum \<Rightarrow> jsnum \<Rightarrow> jsnum \<Rightarrow> bool \<Rightarrow> jsnum" where
  "p5_map n start1 stop1 start2 stop2 withinBounds =
     (let newval = js_add (js_mul (js_div (js_sub n start1) (js_sub stop1 start1))
                                  (js_sub stop2 start2)) start2
      in if \<not> withinBounds then newval
         else if js_lt start2 stop2 then constrain newval start2 stop2
         else constrain newval stop2 start2)"

subsection \<open>Utils\<close>

definition easeInOutCubic :: "jsnum \<Rightarrow> jsnum" where
  "easeInOutCubic t =
     (if js_lt t (Fin 0.5) then js_mul (js_mul (js_mul (Fin 4) t) t) t
      else js_sub (Fin 1)
             (js_div (js_pow (js_add (js_mul (Fin (- 2)) t) (Fin 2)) 3) (Fin 2)))"

section \<open>Configuration and state of the flower\<close>

record config =
  cols :: nat
  rows :: nat
  flowerSize :: real
  alphaValue :: real
  frameRate :: real

definition THETA_DELTA_FACTOR :: real where
  "THETA_DELTA_FACTOR = 15"

definition RADIUS_DELTA_FACTOR :: real where
  "RADIUS_DELTA_FACTOR = 1"

definition LERP_FACTOR :: real where
  "LERP_FACTOR = 0.02"

definition PERLIN_OFFSET_MULTIPLIER :: real where
  "PERLIN_OFFSET_MULTIPLIER = 20"

record params =
  "opening" :: jsnum
  density :: jsnum
  align :: jsnum
  curve1 :: jsnum
  curve2 :: jsnum
  rotationSpeed :: jsnum

datatype pname = Opening | Density | Align | Curve1 | Curve2 | RotationSpeed

text \<open>The own properties of \<^verbatim>\<open>this.params\<close>: \<^verbatim>\<open>hasOwnProperty(key)\<close> holds for these six.\<close>

definition pname_of :: "string \<Rightarrow> pname option" where
  "pname_of key =
     (if key = ''opening'' then Some Opening
      else if key = ''density'' then Some Density
      else if key = ''align'' then Some Align
      else if key = ''curve1'' then Some Curve1
      else if key = ''curve2'' then Some Curve2
      else if key = ''rotationSpeed'' then Some RotationSpeed
      else None)"

fun get_param :: "pname \<Rightarrow> params \<Rightarrow> jsnum" where
  "get_param Opening p = opening p"
| "get_param Density p = density p"
| "get_param Align p = align p"
| "get_param Curve1 p = curve1 p"
| "get_param Curve2 p = curve2 p"
| "get_param RotationSpeed p = rotationSpeed p"

fun set_param :: "pname \<Rightarrow> jsnum \<Rightarrow> params \<Rightarrow> params" where
  "set_param Opening v p = p\<lparr>opening := v\<rparr>"
| "set_param Density v p = p\<lparr>density := v\<rparr>"
| "set_param Align v p = p\<lparr>align := v\<rparr>"
| "set_param Curve1 v p = p\<lparr>curve1 := v\<rparr>"
| "set_param Curve2 v p = p\<lparr>curve2 := v\<rparr>"
| "set_param RotationSpeed v p = p\<lparr>rotationSpeed := v\<rparr>"

record sliderDef =
  param :: pname
  minVal :: real
  maxVal :: real

definition SLIDER_DEFINITIONS :: "sliderDef list" where
  "SLIDER_DEFINITIONS =
     [\<lparr>param = Opening, minVal = 0.5, maxVal = 1.3\<rparr>,
      \<lparr>param = Density, minVal = 1, maxVal = 20\<rparr>,
      \<lparr>param = Align, minVal = 0, maxVal = 6\<rparr>,
      \<lparr>param = Curve1, minVal = - 0.7, maxVal = 2.1\<rparr>,
      \<lparr>param = Curve2, minVal = 0, maxVal = 1.5\<rparr>,
      \<lparr>param = RotationSpeed, minVal = - 0.5, maxVal = 0.5\<rparr>]"

record vertex =
  vx :: jsnum
  vy :: jsnum
  vz :: jsnum

text \<open>A palette entry is a colour parsed from a well-formed hex string: three finite channels.\<close>

record pcolor =
  pr :: real
  pg :: real
  pb :: real

record rgb =
  cr :: jsnum
  cg :: jsnum
  cb :: jsnum

record face =
  fv1 :: vertex
  fv2 :: vertex
  fv3 :: vertex
  color :: rgb

record faceInfo =
  normalizedRadius :: jsnum
  faceZ :: jsnum

datatype error = TypeError

datatype completion = Normal | Thrown error

text \<open>
  The fields of a \<^verbatim>\<open>Flower\<close>. \<open>warnings\<close> is the channel of \<^verbatim>\<open>console.warn\<close>: each
  warning records the parameter object it was given. The constants \<^verbatim>\<open>thetaDelta\<close>,
  \<^verbatim>\<open>radiusDelta\<close> and \<^verbatim>\<open>precalculatedThetaDeltaRad\<close> are computed once from the
  configuration, which never changes, and are functions of it here.
\<close>

record flower =
  config :: config
  params :: params
  palette :: "pcolor list"
  faces :: "face list"
  rotationAngle :: jsnum
  warnings :: "params list"

definition thetaDelta :: "config \<Rightarrow> jsnum" where
  "thetaDelta c = js_div (js_mul (Fin 180) (Fin THETA_DELTA_FACTOR)) (Fin (real (cols c)))"

definition radiusDelta :: "config \<Rightarrow> jsnum" where
  "radiusDelta c = js_div (Fin RADIUS_DELTA_FACTOR) (Fin (real (rows c)))"

definition precalculatedThetaDeltaRad :: "config \<Rightarrow> jsnum" where
  "precalculatedThetaDeltaRad c = radians (thetaDelta c)"

section \<open>Geometry\<close>

definition calculatePhi :: "config \<Rightarrow> params \<Rightarrow> nat \<Rightarrow> jsnum" where
  "calculatePhi c p thetaIdx =
     js_mul (js_div (Fin 180) (opening p))
       (js_exp (js_div (js_mul (js_neg (Fin (real thetaIdx))) (thetaDelta c))
                       (js_mul (density p) (Fin 180))))"

definition calculatePetalShape :: "config \<Rightarrow> params \<Rightarrow> nat \<Rightarrow> jsnum" where
  "calculatePetalShape c p thetaIdx =
     (let petalProgress =
            js_div (js_rem (js_mul (js_mul (align p) (Fin (real thetaIdx))) (thetaDelta c))
                           (Fin 360)) (Fin 180)
      in js_sub (Fin 1)
           (js_mul (Fin 0.5)
              (js_pow (js_sub (js_mul (Fin 1.25) (js_pow (js_sub (Fin 1) petalProgress) 2))
                              (Fin 0.25)) 2)))"

definition calculateCurvature :: "params \<Rightarrow> jsnum \<Rightarrow> jsnum \<Rightarrow> jsnum" where
  "calculateCurvature p nr phi =
     js_mul (js_mul (js_mul (curve1 p) (js_pow nr 2))
                    (js_pow (js_sub (js_mul (curve2 p) nr) (Fin 1)) 2))
            (js_sin (radians phi))"

definition calculate3DPosition ::
  "config \<Rightarrow> jsnum \<Rightarrow> jsnum \<Rightarrow> jsnum \<Rightarrow> nat \<Rightarrow> jsnum \<Rightarrow> vertex" where
  "calculate3DPosition c nr phi hangDown thetaIdx petalCut =
     (let phiRad = radians phi;
          thetaRad = js_mul (Fin (real thetaIdx)) (precalculatedThetaDeltaRad c);
          sinPhi = js_sin phiRad;
          cosPhi = js_cos phiRad;
          sinTheta = js_sin thetaRad;
          cosTheta = js_cos thetaRad;
          radialFactor = js_add (js_mul nr sinPhi) (js_mul hangDown cosPhi);
          currentFlowerSize = Fin (flowerSize c)
      in \<lparr>vx = js_mul (js_mul (js_mul currentFlowerSize petalCut) radialFactor) sinTheta,
          vy = js_mul (js_mul (js_neg currentFlowerSize) petalCut)
                 (js_sub (js_mul nr cosPhi) (js_mul hangDown sinPhi)),
          vz = js_mul (js_mul (js_mul currentFlowerSize petalCut) radialFactor) cosTheta\<rparr>)"

text \<open>The body of the first pair of loops of \<^verbatim>\<open>regenerateGeometry\<close>, and the grid they fill.\<close>

definition gridPoint :: "config \<Rightarrow> params \<Rightarrow> nat \<Rightarrow> nat \<Rightarrow> vertex" where
  "gridPoint c p r thetaIdx =
     (let nr = js_mul (Fin (real r)) (radiusDelta c);
          phi = calculatePhi c p thetaIdx;
          petalCut = calculatePetalShape c p thetaIdx;
          hangDown = calculateCurvature p nr phi
      in calculate3DPosition c nr phi hangDown thetaIdx petalCut)"

definition verticesGrid :: "config \<Rightarrow> params \<Rightarrow> vertex list list" where
  "verticesGrid c p =
     map (\<lambda>r. map (\<lambda>thetaIdx. gridPoint c p r thetaIdx) [0 ..< Suc (cols c)])
         [0 ..< Suc (rows c)]"

section \<open>Colour blending\<close>

text \<open>
  \<^verbatim>\<open>this.palette[i]\<close> is \<^verbatim>\<open>undefined\<close> unless \<open>i\<close> is an index of the array; reading a
  channel of \<^verbatim>\<open>undefined\<close> throws a \<^verbatim>\<open>TypeError\<close>.
\<close>

definition paletteAt :: "pcolor list \<Rightarrow> jsnum \<Rightarrow> pcolor option" where
  "paletteAt pal i =
     (case i of
        Fin a \<Rightarrow>
          (if 0 \<le> a \<and> a = of_int \<lfloor>a\<rfloor> \<and> nat \<lfloor>a\<rfloor> < length pal
           then Some (pal ! nat \<lfloor>a\<rfloor>) else None)
      | _ \<Rightarrow> None)"

text \<open>
  \<^verbatim>\<open>_getBlendedColor\<close> in its two stages: the weighted position of a face (up to the line
  that computes \<^verbatim>\<open>colorPosition\<close>), and the easing, clamping and palette interpolation
  that follow.
\<close>

definition colorPositionOf :: "config \<Rightarrow> faceInfo \<Rightarrow> jsnum" where
  "colorPositionOf c info =
     (let depthFactor =
            p5_map (faceZ info) (js_mul (js_neg (Fin (flowerSize c))) (Fin 0.8))
                   (js_mul (Fin (flowerSize c)) (Fin 0.8)) (Fin 0) (Fin 1) True;
          radiusFactor = normalizedRadius info
      in js_add (js_mul (Fin 0.6) radiusFactor) (js_mul (Fin 0.4) depthFactor))"

definition blendAtPosition :: "pcolor list \<Rightarrow> jsnum \<Rightarrow> error + rgb" where
  "blendAtPosition pal position =
     (let eased = easeInOutCubic (constrain position (Fin 0) (Fin 1));
          colorPosition = constrain eased (Fin 0) (Fin 0.999);
          mappedPosition = js_mul colorPosition (js_sub (Fin (real (length pal))) (Fin 1));
          colorIndex = js_floor mappedPosition;
          nextColorIndex =
            js_min (js_add colorIndex (Fin 1)) (js_sub (Fin (real (length pal))) (Fin 1));
          blendFactor = js_sub mappedPosition colorIndex
      in case paletteAt pal colorIndex of
           None \<Rightarrow> Inl TypeError
         | Some c1 \<Rightarrow>
             (case paletteAt pal nextColorIndex of
                None \<Rightarrow> Inl TypeError
              | Some c2 \<Rightarrow>
                  Inr \<lparr>cr = lerp (Fin (pr c1)) (Fin (pr c2)) blendFactor,
                       cg = lerp (Fin (pg c1)) (Fin (pg c2)) blendFactor,
                       cb = lerp (Fin (pb c1)) (Fin (pb c2)) blendFactor\<rparr>))"

definition getBlendedColor :: "config \<Rightarrow> pcolor list \<Rightarrow> faceInfo \<Rightarrow> error + rgb" where
  "getBlendedColor c pal info = blendAtPosition pal (colorPositionOf c info)"

section \<open>Regeneration\<close>

text \<open>
  The body of the second pair of loops: the two triangles of the quad at \<open>(r, thetaIdx)\<close>.
  The loops call it with \<open>r < rows\<close> and \<open>thetaIdx < cols\<close> on the grid of
  \<open>(rows + 1) \<times> (cols + 1)\<close> vertices, so the four reads are inside the grid.
\<close>

definition quadFaces ::
  "config \<Rightarrow> pcolor list \<Rightarrow> vertex list list \<Rightarrow> nat \<Rightarrow> nat \<Rightarrow> error + face list" where
  "quadFaces c pal g r thetaIdx =
     (let v1 = g ! r ! thetaIdx;
          v2 = g ! r ! (thetaIdx + 1);
          v3 = g ! (r + 1) ! (thetaIdx + 1);
          v4 = g ! (r + 1) ! thetaIdx;
          faceInfo1 =
            \<lparr>normalizedRadius = js_mul (Fin (real r)) (radiusDelta c),
             faceZ = js_div (js_add (js_add (vz v1) (vz v2)) (vz v4)) (Fin 3)\<rparr>;
          faceInfo2 =
            \<lparr>normalizedRadius = js_mul (js_add (Fin (real r)) (Fin 0.5)) (radiusDelta c),
             faceZ = js_div (js_add (js_add (vz v2) (vz v3)) (vz v4)) (Fin 3)\<rparr>
      in case getBlendedColor c pal faceInfo1 of
           Inl e \<Rightarrow> Inl e
         | Inr color1 \<Rightarrow>
             (case getBlendedColor c pal faceInfo2 of
                Inl e \<Rightarrow> Inl e
              | Inr color2 \<Rightarrow>
                  Inr [\<lparr>fv1 = v1, fv2 = v2, fv3 = v4, color = color1\<rparr>,
                       \<lparr>fv1 = v2, fv2 = v3, fv3 = v4, color = color2\<rparr>]))"

text \<open>
  The loops over the quads, row by row. An exception leaves \<^verbatim>\<open>this.faces\<close> with the
  triangles pushed so far.
\<close>

fun pushFaces ::
  "config \<Rightarrow> pcolor list \<Rightarrow> vertex list list \<Rightarrow> (nat \<times> nat) list \<Rightarrow> face list
   \<Rightarrow> face list \<times> completion" where
  "pushFaces c pal g [] fs = (fs, Normal)"
| "pushFaces c pal g ((r, thetaIdx) # cells) fs =
     (case quadFaces c pal g r thetaIdx of
        Inl e \<Rightarrow> (fs, Thrown e)
      | Inr two \<Rightarrow> pushFaces c pal g cells (fs @ two))"

definition quadCells :: "config \<Rightarrow> (nat \<times> nat) list" where
  "quadCells c = List.product [0 ..< rows c] [0 ..< cols c]"

definition paramValues :: "params \<Rightarrow> jsnum list" where
  "paramValues p = [opening p, density p, align p, curve1 p, curve2 p, rotationSpeed p]"

definition invalidParams :: "params \<Rightarrow> bool" where
  "invalidParams p = list_ex js_isNaN (paramValues p)"

definition regenerateGeometry :: "flower \<Rightarrow> flower \<times> completion" where
  "regenerateGeometry s =
     (if invalidParams (params s) then (s\<lparr>warnings := warnings s @ [params s]\<rparr>, Normal)
      else
        (let built = pushFaces (config s) (palette s)
                       (verticesGrid (config s) (params s)) (quadCells (config s)) []
         in (s\<lparr>faces := fst built\<rparr>, snd built)))"

text \<open>The fields the constructor sets before its first regeneration.\<close>

definition blankFlower :: "config \<Rightarrow> params \<Rightarrow> pcolor list \<Rightarrow> flower" where
  "blankFlower c initialParams pal =
     \<lparr>config = c, params = initialParams, palette = pal, faces = [],
      rotationAngle = Fin 0, warnings = []\<rparr>"

text \<open>The constructor: the fields, then the initial regeneration.\<close>

definition newFlower :: "config \<Rightarrow> params \<Rightarrow> pcolor list \<Rightarrow> flower \<times> completion" where
  "newFlower c initialParams pal =
     regenerateGeometry (blankFlower c initialParams pal)"

section \<open>Parameter updates, rendering and animation\<close>

text \<open>
  The loop of \<^verbatim>\<open>updateParams\<close> over the keys of its argument (an association list, in
  enumeration order), carrying \<^verbatim>\<open>this.params\<close> and the flag \<^verbatim>\<open>needsRegeneration\<close>.
\<close>

fun mergeParams :: "params \<Rightarrow> (string \<times> jsnum) list \<Rightarrow> bool \<Rightarrow> params \<times> bool" where
  "mergeParams p [] needsRegeneration = (p, needsRegeneration)"
| "mergeParams p ((key, v) # rest) needsRegeneration =
     (case pname_of key of
        None \<Rightarrow> mergeParams p rest needsRegeneration
      | Some n \<Rightarrow>
          (if js_sne (get_param n p) v
           then mergeParams (set_param n v p) rest
                  (if n \<noteq> RotationSpeed then True else needsRegeneration)
           else mergeParams p rest needsRegeneration))"

definition updateParams :: "flower \<Rightarrow> (string \<times> jsnum) list \<Rightarrow> flower \<times> completion" where
  "updateParams s newParams =
     (let merged = mergeParams (params s) newParams False;
          s' = s\<lparr>params := fst merged\<rparr>
      in if snd merged then regenerateGeometry s' else (s', Normal))"


text \<open>
  One round of the \<^verbatim>\<open>forEach\<close> of \<^verbatim>\<open>autoAnimateParams\<close>; \<open>cur\<close> is \<^verbatim>\<open>this.params\<close>, the
  accumulator holds \<^verbatim>\<open>newParams\<close> and \<^verbatim>\<open>needsRegeneration\<close>. The noise function of
  p5.js is a parameter.
\<close>

definition animateParam ::
  "(jsnum \<Rightarrow> jsnum) \<Rightarrow> jsnum \<Rightarrow> params \<Rightarrow> params \<times> bool \<Rightarrow> nat \<times> pname \<Rightarrow> params \<times> bool" where
  "animateParam noise time cur acc ip =
     (case find (\<lambda>d. param d = snd ip) SLIDER_DEFINITIONS of
        None \<Rightarrow> acc
      | Some sliderDef \<Rightarrow>
          (let lo = Fin (minVal sliderDef);
               hi = Fin (maxVal sliderDef);
               noiseVal =
                 noise (js_add time
                          (js_mul (Fin (real (fst ip))) (Fin PERLIN_OFFSET_MULTIPLIER)));
               targetValue = p5_map noiseVal (Fin 0) (Fin 1) lo hi False;
               lerped = lerp (get_param (snd ip) cur) targetValue (Fin LERP_FACTOR);
               newParams = set_param (snd ip) (constrain lerped lo hi) (fst acc)
           in (newParams,
               if snd ip \<noteq> RotationSpeed \<and>
                  js_gt (js_abs (js_sub (get_param (snd ip) cur)
                                        (get_param (snd ip) newParams)))
                        (Fin 0.0001)
               then True else snd acc)))"

definition animatedParams :: "(jsnum \<Rightarrow> jsnum) \<Rightarrow> jsnum \<Rightarrow> params \<Rightarrow> params \<times> bool" where
  "animatedParams noise time cur =
     foldl (animateParam noise time cur) (cur, False)
       (enumerate 0 (map param SLIDER_DEFINITIONS))"

definition autoAnimateParams ::
  "(jsnum \<Rightarrow> jsnum) \<Rightarrow> flower \<Rightarrow> jsnum \<Rightarrow> flower \<times> completion" where
  "autoAnimateParams noise s time =
     (let animated = animatedParams noise time (params s);
          s' = s\<lparr>params := fst animated\<rparr>
      in if snd animated then regenerateGeometry s' else (s', Normal))"

section \<open>The formulas of the specification\<close>

text \<open>
  The per-vertex derivation and the colour pipeline as the specification words them, over
  the real numbers. Its \<open>mod\<close> is read as the remainder of the source language
  (\<open>rem_trunc\<close>, the sign of the dividend), which is the floor remainder whenever the
  dividend is not negative.
\<close>

record point3 =
  px :: real
  py :: real
  pz :: real

definition vertexOf :: "point3 \<Rightarrow> vertex" where
  "vertexOf q = \<lparr>vx = Fin (px q), vy = Fin (py q), vz = Fin (pz q)\<rparr>"

definition rgbOf :: "pcolor \<Rightarrow> rgb" where
  "rgbOf k = \<lparr>cr = Fin (pr k), cg = Fin (pg k), cb = Fin (pb k)\<rparr>"

definition spec_thetaDelta :: "config \<Rightarrow> real" where
  "spec_thetaDelta c = 180 * THETA_DELTA_FACTOR / real (cols c)"

definition spec_radiusDelta :: "config \<Rightarrow> real" where
  "spec_radiusDelta c = RADIUS_DELTA_FACTOR / real (rows c)"


definition spec_petalCut :: "real \<Rightarrow> real \<Rightarrow> nat \<Rightarrow> real" where
  "spec_petalCut al td t =
     (let progress = rem_trunc (al * real t * td) 360 / 180
      in 1 - 0.5 * (1.25 * (1 - progress)\<^sup>2 - 0.25)\<^sup>2)"

definition spec_hangDown :: "real \<Rightarrow> real \<Rightarrow> real \<Rightarrow> real \<Rightarrow> real" where
  "spec_hangDown c1 c2 nr phi = c1 * nr\<^sup>2 * (c2 * nr - 1)\<^sup>2 * sin (phi * pi / 180)"

definition spec_position :: "real \<Rightarrow> real \<Rightarrow> real \<Rightarrow> real \<Rightarrow> real \<Rightarrow> real \<Rightarrow> point3" where
  "spec_position fs petalCut nr hangDown phi thetaRad =
     (let radial = nr * sin (phi * pi / 180) + hangDown * cos (phi * pi / 180)
      in \<lparr>px = fs * petalCut * radial * sin thetaRad,
          py = - fs * petalCut * (nr * cos (phi * pi / 180) - hangDown * sin (phi * pi / 180)),
          pz = fs * petalCut * radial * cos thetaRad\<rparr>)"

text \<open>Steps 1, 3, 4 and 5 of the derivation, for a given inclination \<open>phi\<close> (in degrees).\<close>

definition spec_vertexAt ::
  "config \<Rightarrow> real \<Rightarrow> real \<Rightarrow> real \<Rightarrow> real \<Rightarrow> nat \<Rightarrow> nat \<Rightarrow> point3" where
  "spec_vertexAt c phi al c1 c2 r t =
     (let nr = real r * spec_radiusDelta c;
          petalCut = spec_petalCut al (spec_thetaDelta c) t;
          hangDown = spec_hangDown c1 c2 nr phi;
          thetaRad = real t * (spec_thetaDelta c * pi / 180)
      in spec_position (flowerSize c) petalCut nr hangDown phi thetaRad)"


definition spec_clamp :: "real \<Rightarrow> real \<Rightarrow> real \<Rightarrow> real" where
  "spec_clamp v lo hi = max lo (min hi v)"

definition spec_map :: "real \<Rightarrow> real \<Rightarrow> real \<Rightarrow> real \<Rightarrow> real \<Rightarrow> real" where
  "spec_map v a b c d = c + (v - a) / (b - a) * (d - c)"

definition spec_depthFactor :: "real \<Rightarrow> real \<Rightarrow> real" where
  "spec_depthFactor fs avgZ = spec_clamp (spec_map avgZ (- 0.8 * fs) (0.8 * fs) 0 1) 0 1"

definition spec_ease :: "real \<Rightarrow> real" where
  "spec_ease t = (if t < 0.5 then 4 * t ^ 3 else 1 - (- 2 * t + 2) ^ 3 / 2)"

text \<open>The blending stage: easing, the clamp to \<open>[0, 0.999]\<close> and the palette interpolation.\<close>

definition spec_paletteColor :: "pcolor list \<Rightarrow> real \<Rightarrow> pcolor" where
  "spec_paletteColor pal colorPosition =
     (let mapped = colorPosition * (real (length pal) - 1);
          i0 = \<lfloor>mapped\<rfloor>;
          i1 = min (i0 + 1) (int (length pal) - 1);
          blend = mapped - of_int i0;
          k0 = pal ! nat i0;
          k1 = pal ! nat i1
      in \<lparr>pr = pr k0 + (pr k1 - pr k0) * blend,
          pg = pg k0 + (pg k1 - pg k0) * blend,
          pb = pb k0 + (pb k1 - pb k0) * blend\<rparr>)"

definition spec_blend :: "pcolor list \<Rightarrow> real \<Rightarrow> pcolor" where
  "spec_blend pal position =
     spec_paletteColor pal (spec_clamp (spec_ease (spec_clamp position 0 1)) 0 0.999)"

definition spec_faceColor :: "config \<Rightarrow> pcolor list \<Rightarrow> real \<Rightarrow> real \<Rightarrow> pcolor" where
  "spec_faceColor c pal radiusFactor avgZ =
     spec_blend pal (0.6 * radiusFactor + 0.4 * spec_depthFactor (flowerSize c) avgZ)"

text \<open>
  The two triangles of the quad at \<open>(r, t)\<close> over a grid \<open>P\<close> of points: triangle A is
  \<open>(v1, v2, v4)\<close>, triangle B is \<open>(v2, v3, v4)\<close>, each coloured from its own average depth.
\<close>

definition spec_quad ::
  "config \<Rightarrow> pcolor list \<Rightarrow> (nat \<Rightarrow> nat \<Rightarrow> point3) \<Rightarrow> nat \<Rightarrow> nat \<Rightarrow> face list" where
  "spec_quad c pal P r t =
     [\<lparr>fv1 = vertexOf (P r t), fv2 = vertexOf (P r (t + 1)), fv3 = vertexOf (P (r + 1) t),
       color = rgbOf (spec_faceColor c pal (real r * spec_radiusDelta c)
                 ((pz (P r t) + pz (P r (t + 1)) + pz (P (r + 1) t)) / 3))\<rparr>,
      \<lparr>fv1 = vertexOf (P r (t + 1)), fv2 = vertexOf (P (r + 1) (t + 1)),
       fv3 = vertexOf (P (r + 1) t),
       color = rgbOf (spec_faceColor c pal ((real r + 0.5) * spec_radiusDelta c)
                 ((pz (P r (t + 1)) + pz (P (r + 1) (t + 1)) + pz (P (r + 1) t)) / 3))\<rparr>]"

definition spec_faces :: "config \<Rightarrow> pcolor list \<Rightarrow> (nat \<Rightarrow> nat \<Rightarrow> point3) \<Rightarrow> face list" where
  "spec_faces c pal P =
     concat (map (\<lambda>rt. spec_quad c pal P (fst rt) (snd rt))
               (List.product [0 ..< rows c] [0 ..< cols c]))"

section \<open>Predicates on parameter values\<close>

fun is_fin :: "jsnum \<Rightarrow> bool" where
  "is_fin (Fin a) = True"
| "is_fin _ = False"

fun the_fin :: "jsnum \<Rightarrow> real" where
  "the_fin (Fin a) = a"
| "the_fin _ = 0"

definition pointOf :: "vertex \<Rightarrow> point3" where
  "pointOf v = \<lparr>px = the_fin (vx v), py = the_fin (vy v), pz = the_fin (vz v)\<rparr>"

text \<open>All six parameters are finite numbers.\<close>

definition finiteParams :: "params \<Rightarrow> bool" where
  "finiteParams p = list_all is_fin (paramValues p)"

text \<open>A number that is neither \<^verbatim>\<open>NaN\<close> nor zero (it may be infinite).\<close>

definition nonzero :: "jsnum \<Rightarrow> bool" where
  "nonzero v = (v \<noteq> NaN \<and> v \<noteq> Fin 0)"

text \<open>
  The parameter values on which every vertex is finite: the guard admits them, and
  \<open>opening\<close> and \<open>density\<close>, which only occur as divisors, may also be infinite.
\<close>

definition regularParams :: "params \<Rightarrow> bool" where
  "regularParams p =
     (nonzero (opening p) \<and> nonzero (density p) \<and> is_fin (align p) \<and>
      is_fin (curve1 p) \<and> is_fin (curve2 p) \<and> rotationSpeed p \<noteq> NaN)"

text \<open>A value within the inclusive range of a slider definition.\<close>

definition withinRange :: "sliderDef \<Rightarrow> jsnum \<Rightarrow> bool" where
  "withinRange d v = (is_fin v \<and> minVal d \<le> the_fin v \<and> the_fin v \<le> maxVal d)"

text \<open>
  An entry of an update that leaves the shape alone: its key is not a parameter, or is
  \<open>rotationSpeed\<close>, or its value is the current value of its key.
\<close>

definition keepsShape :: "params \<Rightarrow> string \<times> jsnum \<Rightarrow> bool" where
  "keepsShape p kv =
     (case pname_of (fst kv) of
        None \<Rightarrow> True
      | Some n \<Rightarrow> (if n = RotationSpeed then True else get_param n p = snd kv))"

section \<open>The configuration of the sketch\<close>

text \<open>
  \<^verbatim>\<open>AppConfig.FLOWER_CONFIG\<close>, \<^verbatim>\<open>AppConfig.INITIAL_PARAMS\<close> and the palette the constructor
  derives from \<^verbatim>\<open>AppConfig.COLOR_SCHEME\<close> (\<^verbatim>\<open>#FFD200\<close>, \<^verbatim>\<open>#FF7192\<close>, \<^verbatim>\<open>#FF0066\<close>), each
  channel divided by 255.
\<close>

definition FLOWER_CONFIG :: config where
  "FLOWER_CONFIG =
     \<lparr>cols = 80, rows = 6, flowerSize = 200, alphaValue = 247, frameRate = 30\<rparr>"

definition INITIAL_PARAMS :: params where
  "INITIAL_PARAMS =
     \<lparr>opening = Fin 0.8, density = Fin 5.5, align = Fin 3.2, curve1 = Fin (- 0.7),
      curve2 = Fin 0.9, rotationSpeed = Fin 0.01\<rparr>"

definition COLOR_SCHEME :: "pcolor list" where
  "COLOR_SCHEME =
     [\<lparr>pr = 255 / 255, pg = 210 / 255, pb = 0 / 255\<rparr>,
      \<lparr>pr = 255 / 255, pg = 113 / 255, pb = 146 / 255\<rparr>,
      \<lparr>pr = 255 / 255, pg = 0 / 255, pb = 102 / 255\<rparr>]"

text \<open>A noise function with the same value at every time, for the examples.\<close>

definition constantNoise :: "real \<Rightarrow> jsnum \<Rightarrow> jsnum" where
  "constantNoise v x = Fin v"

section \<open>Arithmetic on finite and non-finite numbers\<close>

lemma is_fin_iff: "is_fin v \<longleftrightarrow> (\<exists>a. v = Fin a)"
  by (cases v) simp_all

lemma js_mul_NaN [simp]: "js_mul x NaN = NaN"
  by (cases x) simp_all

lemma js_add_NaN [simp]: "js_add x NaN = NaN"
  by (cases x) simp_all

lemma js_div_NaN [simp]: "js_div x NaN = NaN"
  by (cases x) simp_all

lemma js_sub_NaN [simp]: "js_sub x NaN = NaN" "js_sub NaN x = NaN"
  by (simp_all add: js_sub_def)

lemma constrain_NaN [simp]: "constrain NaN lo hi = NaN"
  by (simp add: constrain_def js_min_def js_max_def)

lemma lerp_NaN [simp]: "lerp NaN stop amt = NaN"
  by (simp add: lerp_def)

lemma constrain_fin: "constrain (Fin v) (Fin lo) (Fin hi) = Fin (spec_clamp v lo hi)"
  by (simp add: constrain_def js_min_def js_max_def spec_clamp_def min_def max_def)

lemma lerp_fin: "lerp (Fin a) (Fin b) (Fin t) = Fin (a + (b - a) * t)"
  by (simp add: lerp_def js_sub_def algebra_simps)

lemma easeInOutCubic_fin: "easeInOutCubic (Fin t) = Fin (spec_ease t)"
  by (simp add: easeInOutCubic_def spec_ease_def js_sub_def js_pow_def power3_eq_cube)

lemma spec_clamp_bounds: "lo \<le> hi \<Longrightarrow> lo \<le> spec_clamp v lo hi \<and> spec_clamp v lo hi \<le> hi"
  by (simp add: spec_clamp_def)

section \<open>The vertex grid\<close>

lemma thetaDelta_fin: "1 \<le> cols c \<Longrightarrow> thetaDelta c = Fin (spec_thetaDelta c)"
  by (simp add: thetaDelta_def spec_thetaDelta_def)

lemma radiusDelta_fin: "1 \<le> rows c \<Longrightarrow> radiusDelta c = Fin (spec_radiusDelta c)"
  by (simp add: radiusDelta_def spec_radiusDelta_def)


text \<open>An infinite \<open>opening\<close> or \<open>density\<close> still gives a finite inclination.\<close>

lemma calculatePhi_regular:
  assumes "nonzero (opening p)" "nonzero (density p)" "1 \<le> cols c"
  shows "is_fin (calculatePhi c p t)"
proof -
  obtain td where td: "thetaDelta c = Fin td"
    using assms(3) thetaDelta_fin by blast
  have "is_fin (js_exp (js_div (js_mul (js_neg (Fin (real t))) (Fin td))
                          (js_mul (density p) (Fin 180))))"
    using assms(2) by (cases "density p") (simp_all add: nonzero_def)
  then obtain ev where ev:
    "js_exp (js_div (js_mul (js_neg (Fin (real t))) (Fin td)) (js_mul (density p) (Fin 180)))
     = Fin ev"
    by (auto simp add: is_fin_iff)
  show ?thesis
    using assms(1) unfolding calculatePhi_def td ev
    by (cases "opening p") (simp_all add: nonzero_def)
qed

lemma calculatePetalShape_fin:
  assumes "align p = Fin al" "1 \<le> cols c"
  shows "calculatePetalShape c p t = Fin (spec_petalCut al (spec_thetaDelta c) t)"
  using assms
  by (simp add: calculatePetalShape_def spec_petalCut_def thetaDelta_fin js_sub_def js_pow_def
        Let_def)

lemma calculateCurvature_fin:
  assumes "curve1 p = Fin c1" "curve2 p = Fin c2"
  shows "calculateCurvature p (Fin nr) (Fin phi) = Fin (spec_hangDown c1 c2 nr phi)"
  using assms
  by (simp add: calculateCurvature_def spec_hangDown_def js_sub_def js_pow_def radians_def)

lemma calculate3DPosition_fin:
  assumes "1 \<le> cols c"
  shows "calculate3DPosition c (Fin nr) (Fin phi) (Fin hg) t (Fin pc) =
         vertexOf (spec_position (flowerSize c) pc nr hg phi
                     (real t * (spec_thetaDelta c * pi / 180)))"
  using assms
  by (simp add: calculate3DPosition_def spec_position_def vertexOf_def thetaDelta_fin js_sub_def
        radians_def precalculatedThetaDeltaRad_def Let_def)

lemma gridPoint_fin:
  assumes "calculatePhi c p t = Fin phi" "align p = Fin al" "curve1 p = Fin c1"
    "curve2 p = Fin c2" "1 \<le> cols c" "1 \<le> rows c"
  shows "gridPoint c p r t = vertexOf (spec_vertexAt c phi al c1 c2 r t)"
  using assms
  by (simp add: gridPoint_def spec_vertexAt_def Let_def radiusDelta_fin calculatePetalShape_fin
        calculateCurvature_fin calculate3DPosition_fin)

lemma pointOf_vertexOf [simp]: "pointOf (vertexOf q) = q"
  by (simp add: pointOf_def vertexOf_def)

lemma gridPoint_regular:
  assumes "regularParams p" "1 \<le> cols c" "1 \<le> rows c"
  shows "gridPoint c p r t = vertexOf (pointOf (gridPoint c p r t))"
proof -
  from assms(1) obtain al c1 c2 where
    v: "align p = Fin al" "curve1 p = Fin c1" "curve2 p = Fin c2"
    and nz: "nonzero (opening p)" "nonzero (density p)"
    by (auto simp add: regularParams_def is_fin_iff)
  from calculatePhi_regular[OF nz assms(2)] obtain phi where "calculatePhi c p t = Fin phi"
    by (auto simp add: is_fin_iff)
  from gridPoint_fin[OF this v assms(2,3)] show ?thesis by simp
qed

lemma finiteParams_fields:
  assumes "finiteParams p"
  shows "opening p = Fin (the_fin (opening p))" "density p = Fin (the_fin (density p))"
    "align p = Fin (the_fin (align p))" "curve1 p = Fin (the_fin (curve1 p))"
    "curve2 p = Fin (the_fin (curve2 p))" "rotationSpeed p = Fin (the_fin (rotationSpeed p))"
  using assms by (auto simp add: finiteParams_def paramValues_def is_fin_iff)



lemma verticesGrid_nth:
  assumes "r \<le> rows c" "t \<le> cols c"
  shows "verticesGrid c p ! r ! t = gridPoint c p r t"
  using assms by (simp add: verticesGrid_def nth_append del: upt_Suc)


section \<open>Colours\<close>

lemma colorPositionOf_fin:
  assumes "flowerSize c \<noteq> 0"
  shows "colorPositionOf c \<lparr>normalizedRadius = Fin rf, faceZ = Fin avgZ\<rparr> =
         Fin (0.6 * rf + 0.4 * spec_depthFactor (flowerSize c) avgZ)"
  using assms
  by (simp add: colorPositionOf_def p5_map_def js_sub_def constrain_fin spec_depthFactor_def
        spec_map_def Let_def)

lemma colorPositionOf_NaN: "faceZ info = NaN \<Longrightarrow> colorPositionOf c info = NaN"
  by (simp add: colorPositionOf_def p5_map_def Let_def)

lemma paletteAt_index:
  assumes "0 \<le> i" "nat i < length pal"
  shows "paletteAt pal (Fin (of_int i)) = Some (pal ! nat i)"
  using assms by (simp add: paletteAt_def)

text \<open>The clamp to \<open>0.999\<close> keeps both palette indices inside a non-empty palette.\<close>

lemma index_bounds:
  fixes q :: real
  assumes "0 \<le> q" "q \<le> 0.999" "0 < n"
  shows "0 \<le> \<lfloor>q * (real n - 1)\<rfloor>" "nat \<lfloor>q * (real n - 1)\<rfloor> < n"
    "0 \<le> min (\<lfloor>q * (real n - 1)\<rfloor> + 1) (int n - 1)"
    "nat (min (\<lfloor>q * (real n - 1)\<rfloor> + 1) (int n - 1)) < n"
proof -
  have n1: "0 \<le> real n - 1" using assms(3) by simp
  then have "0 \<le> q * (real n - 1)" using assms(1) by simp
  then show a: "0 \<le> \<lfloor>q * (real n - 1)\<rfloor>" by simp
  have "q * (real n - 1) \<le> 1 * (real n - 1)"
    using assms(2) n1 by (intro mult_right_mono) auto
  then have "q * (real n - 1) < real n" by simp
  then have "\<lfloor>q * (real n - 1)\<rfloor> < int n" by (simp add: floor_less_iff)
  then show "nat \<lfloor>q * (real n - 1)\<rfloor> < n" using a by linarith
  show "0 \<le> min (\<lfloor>q * (real n - 1)\<rfloor> + 1) (int n - 1)" using a assms(3) by simp
  then show "nat (min (\<lfloor>q * (real n - 1)\<rfloor> + 1) (int n - 1)) < n"
    using assms(3) by linarith
qed

lemma blendAtPosition_fin:
  assumes "pal \<noteq> []"
  shows "blendAtPosition pal (Fin v) = Inr (rgbOf (spec_blend pal v))"
proof -
  define q where "q = spec_clamp (spec_ease (spec_clamp v 0 1)) 0 0.999"
  define m where "m = q * (real (length pal) - 1)"
  define i1 where "i1 = min (\<lfloor>m\<rfloor> + 1) (int (length pal) - 1)"
  have q: "0 \<le> q" "q \<le> 0.999"
    using spec_clamp_bounds[of 0 "0.999"] by (simp_all add: q_def)
  have n: "0 < length pal" using assms by simp
  note ib = index_bounds[OF q n, folded m_def, folded i1_def]
  have cp: "constrain (easeInOutCubic (constrain (Fin v) (Fin 0) (Fin 1))) (Fin 0) (Fin 0.999)
            = Fin q"
    by (simp add: constrain_fin easeInOutCubic_fin q_def)
  have mp: "js_mul (Fin q) (js_sub (Fin (real (length pal))) (Fin 1)) = Fin m"
    by (simp add: js_sub_def m_def)
  have nx: "js_min (js_add (js_floor (Fin m)) (Fin 1))
              (js_sub (Fin (real (length pal))) (Fin 1)) = Fin (of_int i1)"
    using n by (auto simp add: js_min_def js_sub_def i1_def min_def)
  have bf: "js_sub (Fin m) (js_floor (Fin m)) = Fin (m - of_int \<lfloor>m\<rfloor>)"
    by (simp add: js_sub_def)
  have p0: "paletteAt pal (js_floor (Fin m)) = Some (pal ! nat \<lfloor>m\<rfloor>)"
    using ib(1,2) by (simp add: paletteAt_index)
  have p1: "paletteAt pal (Fin (of_int i1)) = Some (pal ! nat i1)"
    using ib(3,4) by (rule paletteAt_index)
  have "blendAtPosition pal (Fin v) =
      Inr \<lparr>cr = lerp (Fin (pr (pal ! nat \<lfloor>m\<rfloor>))) (Fin (pr (pal ! nat i1)))
                  (Fin (m - of_int \<lfloor>m\<rfloor>)),
           cg = lerp (Fin (pg (pal ! nat \<lfloor>m\<rfloor>))) (Fin (pg (pal ! nat i1)))
                  (Fin (m - of_int \<lfloor>m\<rfloor>)),
           cb = lerp (Fin (pb (pal ! nat \<lfloor>m\<rfloor>))) (Fin (pb (pal ! nat i1)))
                  (Fin (m - of_int \<lfloor>m\<rfloor>))\<rparr>"
    unfolding blendAtPosition_def Let_def cp mp nx bf p0 p1 by simp
  also have "\<dots> = Inr (rgbOf (spec_blend pal v))"
    unfolding spec_blend_def spec_paletteColor_def Let_def q_def[symmetric] m_def[symmetric]
      i1_def[symmetric] lerp_fin
    by (simp add: rgbOf_def)
  finally show ?thesis .
qed

lemma blendAtPosition_NaN: "blendAtPosition pal NaN = Inl TypeError"
  by (simp add: blendAtPosition_def easeInOutCubic_def js_pow_def paletteAt_def Let_def)

section \<open>The face loops\<close>

lemma quadFaces_fin:
  assumes "g ! r ! t = vertexOf (P r t)" "g ! r ! (t + 1) = vertexOf (P r (t + 1))"
    "g ! (r + 1) ! (t + 1) = vertexOf (P (r + 1) (t + 1))"
    "g ! (r + 1) ! t = vertexOf (P (r + 1) t)"
    "flowerSize c \<noteq> 0" "pal \<noteq> []" "1 \<le> rows c"
  shows "quadFaces c pal g r t = Inr (spec_quad c pal P r t)"
  using assms(5-)
  unfolding quadFaces_def Let_def assms(1-4) spec_quad_def getBlendedColor_def
  by (simp add: vertexOf_def radiusDelta_fin colorPositionOf_fin blendAtPosition_fin
        spec_faceColor_def)

lemma quadFaces_NaN:
  assumes "vz (g ! r ! t) = NaN"
  shows "quadFaces c pal g r t = Inl TypeError"
  using assms
  by (simp add: quadFaces_def getBlendedColor_def colorPositionOf_NaN blendAtPosition_NaN Let_def)

lemma pushFaces_all:
  assumes "\<And>r t. (r, t) \<in> set cells \<Longrightarrow> quadFaces c pal g r t = Inr (Q r t)"
  shows "pushFaces c pal g cells fs =
         (fs @ concat (map (\<lambda>rt. Q (fst rt) (snd rt)) cells), Normal)"
  using assms
proof (induction cells arbitrary: fs)
  case Nil
  then show ?case by simp
next
  case (Cons a cells)
  obtain r t where a: "a = (r, t)" by (cases a)
  have "quadFaces c pal g r t = Inr (Q r t)" using Cons.prems a by simp
  moreover have "pushFaces c pal g cells (fs @ Q r t)
      = ((fs @ Q r t) @ concat (map (\<lambda>rt. Q (fst rt) (snd rt)) cells), Normal)"
    using Cons.prems by (intro Cons.IH) simp
  ultimately show ?case by (simp add: a)
qed

lemma quadCells_first:
  assumes "1 \<le> rows c" "1 \<le> cols c"
  shows "\<exists>rest. quadCells c = (0, 0) # rest"
  using assms by (simp add: quadCells_def upt_conv_Cons)

lemma pushFaces_first_throws:
  assumes "1 \<le> rows c" "1 \<le> cols c" "quadFaces c pal g 0 0 = Inl e"
  shows "pushFaces c pal g (quadCells c) [] = ([], Thrown e)"
proof -
  from quadCells_first[OF assms(1,2)] obtain rest where "quadCells c = (0, 0) # rest" ..
  then show ?thesis using assms(3) by simp
qed

lemma spec_faces_length: "length (spec_faces c pal P) = 2 * rows c * cols c"
  by (simp add: spec_faces_def length_concat o_def spec_quad_def sum_list_triv)

section \<open>Regeneration\<close>

lemma regenerate_frame:
  "params (fst (regenerateGeometry s)) = params s"
  "config (fst (regenerateGeometry s)) = config s"
  "palette (fst (regenerateGeometry s)) = palette s"
  "rotationAngle (fst (regenerateGeometry s)) = rotationAngle s"
  by (simp_all add: regenerateGeometry_def Let_def)

lemma regenerate_invalid:
  assumes "invalidParams (params s)"
  shows "regenerateGeometry s = (s\<lparr>warnings := warnings s @ [params s]\<rparr>, Normal)"
  using assms by (simp add: regenerateGeometry_def)

lemma invalid_iff: "invalidParams p \<longleftrightarrow> (\<exists>n. get_param n p = NaN)"
proof
  assume "invalidParams p"
  then consider "opening p = NaN" | "density p = NaN" | "align p = NaN" | "curve1 p = NaN"
    | "curve2 p = NaN" | "rotationSpeed p = NaN"
    by (auto simp add: invalidParams_def paramValues_def js_isNaN_def)
  then show "\<exists>n. get_param n p = NaN"
  proof cases
    case 1 then have "get_param Opening p = NaN" by simp then show ?thesis ..
  next
    case 2 then have "get_param Density p = NaN" by simp then show ?thesis ..
  next
    case 3 then have "get_param Align p = NaN" by simp then show ?thesis ..
  next
    case 4 then have "get_param Curve1 p = NaN" by simp then show ?thesis ..
  next
    case 5 then have "get_param Curve2 p = NaN" by simp then show ?thesis ..
  next
    case 6 then have "get_param RotationSpeed p = NaN" by simp then show ?thesis ..
  qed
next
  assume "\<exists>n. get_param n p = NaN"
  then obtain n where "get_param n p = NaN" ..
  then show "invalidParams p"
    by (cases n) (simp_all add: invalidParams_def paramValues_def js_isNaN_def)
qed

lemma regular_valid: "regularParams p \<Longrightarrow> \<not> invalidParams p"
  by (auto simp add: regularParams_def invalidParams_def paramValues_def js_isNaN_def
        nonzero_def)

text \<open>On regular parameters the whole mesh is the one the specification describes.\<close>

lemma regenerate_regular:
  assumes "regularParams (params s)" "flowerSize (config s) \<noteq> 0" "palette s \<noteq> []"
    "1 \<le> rows (config s)" "1 \<le> cols (config s)"
  shows "regenerateGeometry s =
         (s\<lparr>faces := spec_faces (config s) (palette s)
                        (\<lambda>r t. pointOf (gridPoint (config s) (params s) r t))\<rparr>, Normal)"
proof -
  let ?c = "config s" and ?p = "params s"
  let ?P = "\<lambda>r t. pointOf (gridPoint ?c ?p r t)"
  have q: "quadFaces ?c (palette s) (verticesGrid ?c ?p) r t
           = Inr (spec_quad ?c (palette s) ?P r t)"
    if "(r, t) \<in> set (quadCells ?c)" for r t
  proof -
    from that have rt: "r < rows ?c" "t < cols ?c" by (auto simp add: quadCells_def)
    show ?thesis
      using rt assms
      by (intro quadFaces_fin) (simp_all add: verticesGrid_nth gridPoint_regular[symmetric])
  qed
  have pf: "pushFaces ?c (palette s) (verticesGrid ?c ?p) (quadCells ?c) [] =
      ([] @ concat (map (\<lambda>rt. spec_quad ?c (palette s) ?P (fst rt) (snd rt)) (quadCells ?c)),
       Normal)"
    by (rule pushFaces_all) (rule q)
  show ?thesis
    using regular_valid[OF assms(1)]
    by (simp add: regenerateGeometry_def pf spec_faces_def Let_def) (simp add: quadCells_def)
qed







section \<open>Updates and animation\<close>

lemma updateParams_frame:
  "params (fst (updateParams s np)) = fst (mergeParams (params s) np False)"
  "config (fst (updateParams s np)) = config s"
  "palette (fst (updateParams s np)) = palette s"
  "rotationAngle (fst (updateParams s np)) = rotationAngle s"
  by (simp_all add: updateParams_def Let_def regenerate_frame)

lemma autoAnimate_frame:
  "params (fst (autoAnimateParams noise s time)) = fst (animatedParams noise time (params s))"
  "rotationAngle (fst (autoAnimateParams noise s time)) = rotationAngle s"
  by (simp_all add: autoAnimateParams_def Let_def regenerate_frame)

lemma keepsShape_rotationSpeed [simp]:
  "keepsShape (p\<lparr>rotationSpeed := v\<rparr>) = keepsShape p"
proof
  fix kv
  show "keepsShape (p\<lparr>rotationSpeed := v\<rparr>) kv = keepsShape p kv"
  proof (cases "pname_of (fst kv)")
    case None
    then show ?thesis by (simp add: keepsShape_def)
  next
    case (Some n)
    then show ?thesis by (cases n) (simp_all add: keepsShape_def)
  qed
qed

lemma set_param_same: "set_param n (get_param n p) p = p"
  by (cases n) simp_all

lemma invalid_rotationSpeed:
  assumes "n \<noteq> RotationSpeed" "get_param n p = NaN"
  shows "invalidParams (p\<lparr>rotationSpeed := rs\<rparr>)"
proof -
  have "get_param n (p\<lparr>rotationSpeed := rs\<rparr>) = NaN"
    using assms by (cases n) simp_all
  then show ?thesis using invalid_iff by blast
qed

text \<open>
  While every entry keeps the shape, the loop of \<^verbatim>\<open>updateParams\<close> changes at most
  \<open>rotationSpeed\<close>, and it raises its flag only for a shape parameter that is \<^verbatim>\<open>NaN\<close>
  (which \<^verbatim>\<open>!==\<close> tells apart from itself).
\<close>

lemma mergeParams_quiet:
  assumes "list_all (keepsShape p) np"
  shows "\<exists>rs. fst (mergeParams p np need) = p\<lparr>rotationSpeed := rs\<rparr> \<and>
              (snd (mergeParams p np need) = need \<or>
               (\<exists>n. n \<noteq> RotationSpeed \<and> get_param n p = NaN))"
  using assms
proof (induction np arbitrary: p need)
  case Nil
  have "p = p\<lparr>rotationSpeed := rotationSpeed p\<rparr>" by simp
  then show ?case by (metis mergeParams.simps(1) fst_conv snd_conv)
next
  case (Cons a np)
  obtain key v where a: "a = (key, v)" by (cases a)
  from Cons.prems have k: "keepsShape p (key, v)" and rest: "list_all (keepsShape p) np"
    by (simp_all add: a)
  show ?case
  proof (cases "pname_of key")
    case None
    then show ?thesis using Cons.IH[OF rest, of need] by (simp add: a)
  next
    case (Some n)
    show ?thesis
    proof (cases "js_sne (get_param n p) v")
      case False
      then show ?thesis using Cons.IH[OF rest, of need] Some by (simp add: a)
    next
      case True
      show ?thesis
      proof (cases "n = RotationSpeed")
        case rot: True
        have "list_all (keepsShape (p\<lparr>rotationSpeed := v\<rparr>)) np" using rest by simp
        from Cons.IH[OF this, of need] obtain rs where
          "fst (mergeParams (p\<lparr>rotationSpeed := v\<rparr>) np need) = p\<lparr>rotationSpeed := rs\<rparr>"
          "snd (mergeParams (p\<lparr>rotationSpeed := v\<rparr>) np need) = need \<or>
           (\<exists>m. m \<noteq> RotationSpeed \<and> get_param m (p\<lparr>rotationSpeed := v\<rparr>) = NaN)"
          by auto
        moreover have "get_param m (p\<lparr>rotationSpeed := v\<rparr>) = get_param m p"
          if "m \<noteq> RotationSpeed" for m
          using that by (cases m) simp_all
        ultimately show ?thesis using True Some rot by (auto simp add: a)
      next
        case shape: False
        then have same: "get_param n p = v" using k Some by (simp add: keepsShape_def)
        with True have "get_param n p = NaN" by (auto simp add: js_sne_def)
        with shape have ex: "\<exists>m. m \<noteq> RotationSpeed \<and> get_param m p = NaN" by blast
        have "set_param n v p = p" using same set_param_same by auto
        with Cons.IH[OF rest, of True] ex True Some shape show ?thesis
          by (auto simp add: a)
      qed
    qed
  qed
qed

text \<open>Each round of the animation writes one field, computed from the old value of that field.\<close>

lemma animated_fields:
  fixes noise time cur
  defines "step i d v \<equiv>
    constrain (lerp v (p5_map (noise (js_add time (js_mul (Fin (real i))
                                 (Fin PERLIN_OFFSET_MULTIPLIER))))
                         (Fin 0) (Fin 1) (Fin (minVal d)) (Fin (maxVal d)) False)
                 (Fin LERP_FACTOR)) (Fin (minVal d)) (Fin (maxVal d))"
  shows "opening (fst (animatedParams noise time cur))
         = step 0 (SLIDER_DEFINITIONS ! 0) (opening cur)"
    "density (fst (animatedParams noise time cur))
     = step 1 (SLIDER_DEFINITIONS ! 1) (density cur)"
    "align (fst (animatedParams noise time cur))
     = step 2 (SLIDER_DEFINITIONS ! 2) (align cur)"
    "curve1 (fst (animatedParams noise time cur))
     = step 3 (SLIDER_DEFINITIONS ! 3) (curve1 cur)"
    "curve2 (fst (animatedParams noise time cur))
     = step 4 (SLIDER_DEFINITIONS ! 4) (curve2 cur)"
    "rotationSpeed (fst (animatedParams noise time cur))
     = step 5 (SLIDER_DEFINITIONS ! 5) (rotationSpeed cur)"
  by (simp_all add: animatedParams_def animateParam_def SLIDER_DEFINITIONS_def step_def Let_def)

lemma step_within:
  assumes "lo \<le> hi"
  shows "\<exists>w. constrain (lerp (Fin a) (p5_map (Fin n) (Fin 0) (Fin 1) (Fin lo) (Fin hi) False)
                           (Fin f)) (Fin lo) (Fin hi) = Fin w \<and> lo \<le> w \<and> w \<le> hi"
  using assms spec_clamp_bounds[OF assms]
  by (simp add: p5_map_def lerp_def js_sub_def constrain_fin Let_def)

text \<open>Storing \<^verbatim>\<open>NaN\<close> in \<open>opening\<close>: the store happens, the regeneration aborts at the guard.\<close>

lemma update_opening_NaN:
  "updateParams s [(''opening'', NaN)] =
     (s\<lparr>params := (params s)\<lparr>opening := NaN\<rparr>,
        warnings := warnings s @ [(params s)\<lparr>opening := NaN\<rparr>]\<rparr>, Normal)"
proof -
  have "invalidParams ((params s)\<lparr>opening := NaN\<rparr>)"
    by (simp add: invalidParams_def paramValues_def js_isNaN_def)
  then show ?thesis
    by (simp add: updateParams_def pname_of_def js_sne_def regenerateGeometry_def)
qed

section \<open>Infinite parameters\<close>

text \<open>An infinite \<open>align\<close> is multiplied by the column index \<open>0\<close>, which gives \<^verbatim>\<open>NaN\<close>.\<close>

lemma gridPoint_align_infinite:
  assumes "align p = PosInf \<or> align p = NegInf"
  shows "vz (gridPoint c p r 0) = NaN"
  using assms
  by (auto simp add: gridPoint_def calculatePetalShape_def calculate3DPosition_def js_pow_def
        Let_def)

lemma regenerate_align_infinite:
  assumes "align (params s) = PosInf \<or> align (params s) = NegInf"
    "\<not> invalidParams (params s)" "1 \<le> rows (config s)" "1 \<le> cols (config s)"
  shows "regenerateGeometry s = (s\<lparr>faces := []\<rparr>, Thrown TypeError)"
proof -
  have "vz (verticesGrid (config s) (params s) ! 0 ! 0) = NaN"
    using assms by (simp add: verticesGrid_nth gridPoint_align_infinite)
  then have "quadFaces (config s) (palette s) (verticesGrid (config s) (params s)) 0 0
             = Inl TypeError"
    by (rule quadFaces_NaN)
  from pushFaces_first_throws[OF assms(3,4) this] show ?thesis
    using assms(2) by (simp add: regenerateGeometry_def)
qed

section \<open>The remainder, and the vertex on the rim at column 0\<close>

lemma rem_trunc_zero [simp]: "rem_trunc 0 b = 0"
  by (simp add: rem_trunc_def trunc_def)

text \<open>For a dividend that is not negative the remainder is the floor remainder.\<close>

lemma rem_trunc_nonneg:
  assumes "0 \<le> a" "0 < b"
  shows "rem_trunc a b = a - b * of_int \<lfloor>a / b\<rfloor>"
  using assms by (simp add: rem_trunc_def trunc_def)

lemma vertexOf_inject [simp]: "vertexOf q = vertexOf q' \<longleftrightarrow> q = q'"
  by (cases q; cases q') (simp add: vertexOf_def)






section \<open>A palette of two colours\<close>

lemma spec_blend_two_low: "spec_blend [k0, k1] 0 = k0"
  by (simp add: spec_blend_def spec_paletteColor_def spec_clamp_def spec_ease_def Let_def)

lemma floor_999: "\<lfloor>999 / 1000 :: real\<rfloor> = 0"
  by (simp add: floor_eq_iff)

lemma spec_blend_two_high:
  "spec_blend [k0, k1] 1 =
   \<lparr>pr = pr k0 + (pr k1 - pr k0) * 0.999, pg = pg k0 + (pg k1 - pg k0) * 0.999,
    pb = pb k0 + (pb k1 - pb k0) * 0.999\<rparr>"
  by (simp add: spec_blend_def spec_paletteColor_def spec_clamp_def spec_ease_def Let_def
        floor_999)

section \<open>The claims\<close>








text \<open>
  C4, as stated, fails: a parameter that is \<^verbatim>\<open>NaN\<close> before the call (which \<^verbatim>\<open>updateParams\<close>
  can store) is \<^verbatim>\<open>NaN\<close> after it, for any noise, since \<^verbatim>\<open>lerp\<close> and \<^verbatim>\<open>constrain\<close> pass
  \<^verbatim>\<open>NaN\<close> through.
\<close>

theorem animation_keeps_NaN:
  "\<not> withinRange (SLIDER_DEFINITIONS ! 0)
       (opening (params (fst (autoAnimateParams (constantNoise 0.5)
          (fst (updateParams (fst (newFlower FLOWER_CONFIG INITIAL_PARAMS COLOR_SCHEME))
                  [(''opening'', NaN)])) (Fin 0.003)))))"
proof -
  let ?s = "fst (updateParams (fst (newFlower FLOWER_CONFIG INITIAL_PARAMS COLOR_SCHEME))
                   [(''opening'', NaN)])"
  have "opening (params ?s) = NaN"
    by (simp add: updateParams_frame pname_of_def js_sne_def)
  then show ?thesis
    by (simp add: autoAnimate_frame animated_fields withinRange_def)
qed

text \<open>
  C4, amended. If the six current parameters are finite numbers and the noise function
  returns values in \<open>[0, 1]\<close>, then after one call of \<^verbatim>\<open>autoAnimateParams\<close> every parameter
  lies within the inclusive range of its slider definition, wherever it was before.
\<close>

theorem animation_within_range:
  assumes "finiteParams (params s)" "\<And>x. \<exists>v. noise x = Fin v \<and> 0 \<le> v \<and> v \<le> 1"
  shows "list_all (\<lambda>d. withinRange d
                     (get_param (param d) (params (fst (autoAnimateParams noise s time)))))
           SLIDER_DEFINITIONS"
proof -
  note f = finiteParams_fields[OF assms(1)]
  have w: "withinRange d (constrain (lerp (Fin a) (p5_map (noise x) (Fin 0) (Fin 1)
              (Fin (minVal d)) (Fin (maxVal d)) False) (Fin LERP_FACTOR))
              (Fin (minVal d)) (Fin (maxVal d)))"
    if "minVal d \<le> maxVal d" for d a x
  proof -
    obtain v where "noise x = Fin v" using assms(2) by blast
    with step_within[OF that, of a v LERP_FACTOR] show ?thesis
      by (auto simp add: withinRange_def)
  qed
  let ?q = "fst (animatedParams noise time (params s))"
  have o: "withinRange (SLIDER_DEFINITIONS ! 0) (opening ?q)"
    unfolding animated_fields by (subst f(1)) (rule w, simp add: SLIDER_DEFINITIONS_def)
  have d: "withinRange (SLIDER_DEFINITIONS ! 1) (density ?q)"
    unfolding animated_fields by (subst f(2)) (rule w, simp add: SLIDER_DEFINITIONS_def)
  have a: "withinRange (SLIDER_DEFINITIONS ! 2) (align ?q)"
    unfolding animated_fields by (subst f(3)) (rule w, simp add: SLIDER_DEFINITIONS_def)
  have c1: "withinRange (SLIDER_DEFINITIONS ! 3) (curve1 ?q)"
    unfolding animated_fields by (subst f(4)) (rule w, simp add: SLIDER_DEFINITIONS_def)
  have c2: "withinRange (SLIDER_DEFINITIONS ! 4) (curve2 ?q)"
    unfolding animated_fields by (subst f(5)) (rule w, simp add: SLIDER_DEFINITIONS_def)
  have rs: "withinRange (SLIDER_DEFINITIONS ! 5) (rotationSpeed ?q)"
    unfolding animated_fields by (subst f(6)) (rule w, simp add: SLIDER_DEFINITIONS_def)
  show ?thesis
    using o d a c1 c2 rs
    by (simp add: autoAnimate_frame) (simp add: SLIDER_DEFINITIONS_def)
qed

theorem animation_within_range_witness:
  "list_all (\<lambda>d. withinRange d
               (get_param (param d)
                  (params (fst (autoAnimateParams (constantNoise 1)
                     (blankFlower FLOWER_CONFIG (INITIAL_PARAMS\<lparr>density := Fin 100\<rparr>)
                        COLOR_SCHEME) (Fin 0.003))))))
     SLIDER_DEFINITIONS"
  using animation_within_range[of
      "blankFlower FLOWER_CONFIG (INITIAL_PARAMS\<lparr>density := Fin 100\<rparr>) COLOR_SCHEME"
      "constantNoise 1" "Fin 0.003"]
  by (simp add: blankFlower_def finiteParams_def paramValues_def INITIAL_PARAMS_def
        constantNoise_def)

text \<open>
  C5. If every entry of an update either has a key that is not a parameter, or is for
  \<open>rotationSpeed\<close>, or supplies the current value of its key, then \<^verbatim>\<open>updateParams\<close>
  returns normally and changes nothing but \<open>rotationSpeed\<close> (and possibly the warning
  channel): the face list is the previous one, whatever it was. Unless a current
  parameter is \<^verbatim>\<open>NaN\<close>, the flag \<^verbatim>\<open>needsRegeneration\<close> stays false, so
  \<^verbatim>\<open>regenerateGeometry\<close> is not even called and nothing is logged.
\<close>

theorem no_regeneration_without_shape_change:
  assumes "list_all (keepsShape (params s)) newParams"
  shows "\<exists>rs w. updateParams s newParams =
                  (s\<lparr>params := (params s)\<lparr>rotationSpeed := rs\<rparr>,
                     warnings := warnings s @ w\<rparr>, Normal) \<and>
                (\<not> invalidParams (params s) \<longrightarrow>
                   w = [] \<and> \<not> snd (mergeParams (params s) newParams False))"
proof -
  from mergeParams_quiet[OF assms, of False] obtain rs where
    m: "fst (mergeParams (params s) newParams False) = (params s)\<lparr>rotationSpeed := rs\<rparr>"
    and f: "snd (mergeParams (params s) newParams False) = False \<or>
            (\<exists>n. n \<noteq> RotationSpeed \<and> get_param n (params s) = NaN)"
    by auto
  let ?s' = "s\<lparr>params := (params s)\<lparr>rotationSpeed := rs\<rparr>\<rparr>"
  show ?thesis
  proof (cases "snd (mergeParams (params s) newParams False)")
    case False
    then have "updateParams s newParams = (?s'\<lparr>warnings := warnings s @ []\<rparr>, Normal)"
      by (simp add: updateParams_def m)
    with False show ?thesis by blast
  next
    case True
    with f obtain n where n: "n \<noteq> RotationSpeed" "get_param n (params s) = NaN" by auto
    then have inv: "invalidParams (params ?s')" by (simp add: invalid_rotationSpeed)
    have "invalidParams (params s)" using n(2) invalid_iff by blast
    moreover have "updateParams s newParams =
        (?s'\<lparr>warnings := warnings s @ [(params s)\<lparr>rotationSpeed := rs\<rparr>]\<rparr>, Normal)"
      using True regenerate_invalid[OF inv] by (simp add: updateParams_def m)
    ultimately show ?thesis by blast
  qed
qed

theorem no_regeneration_without_shape_change_witness:
  "updateParams (blankFlower FLOWER_CONFIG INITIAL_PARAMS COLOR_SCHEME)
     [(''opening'', Fin 0.8), (''rotationSpeed'', Fin 0.3), (''colour'', Fin 7)]
   = ((blankFlower FLOWER_CONFIG INITIAL_PARAMS COLOR_SCHEME)
        \<lparr>params := INITIAL_PARAMS\<lparr>rotationSpeed := Fin 0.3\<rparr>\<rparr>, Normal)"
  using no_regeneration_without_shape_change
    [of "blankFlower FLOWER_CONFIG INITIAL_PARAMS COLOR_SCHEME"
        "[(''opening'', Fin 0.8), (''rotationSpeed'', Fin 0.3), (''colour'', Fin 7)]"]
  by (simp add: keepsShape_def pname_of_def js_sne_def blankFlower_def INITIAL_PARAMS_def
        updateParams_def)

text \<open>
  C6, as stated, fails: the guard tests \<^verbatim>\<open>isNaN(parseFloat(v))\<close>, which an infinite value
  passes. With \<open>opening = Infinity\<close> the constructor's regeneration is not skipped: no
  warning is logged and the empty face list is replaced by 960 faces. With
  \<open>align = Infinity\<close> it is not skipped either, and a \<^verbatim>\<open>TypeError\<close> propagates.
\<close>

theorem infinite_parameter_not_skipped:
  "\<not> is_fin (opening (params (blankFlower FLOWER_CONFIG (INITIAL_PARAMS\<lparr>opening := PosInf\<rparr>)
                                 COLOR_SCHEME))) \<and>
   faces (blankFlower FLOWER_CONFIG (INITIAL_PARAMS\<lparr>opening := PosInf\<rparr>) COLOR_SCHEME) = [] \<and>
   length (faces (fst (regenerateGeometry
      (blankFlower FLOWER_CONFIG (INITIAL_PARAMS\<lparr>opening := PosInf\<rparr>) COLOR_SCHEME)))) = 960 \<and>
   warnings (fst (regenerateGeometry
      (blankFlower FLOWER_CONFIG (INITIAL_PARAMS\<lparr>opening := PosInf\<rparr>) COLOR_SCHEME))) = [] \<and>
   \<not> is_fin (align (params (blankFlower FLOWER_CONFIG (INITIAL_PARAMS\<lparr>align := PosInf\<rparr>)
                               COLOR_SCHEME))) \<and>
   snd (regenerateGeometry
      (blankFlower FLOWER_CONFIG (INITIAL_PARAMS\<lparr>align := PosInf\<rparr>) COLOR_SCHEME))
     = Thrown TypeError"
proof -
  let ?s = "blankFlower FLOWER_CONFIG (INITIAL_PARAMS\<lparr>opening := PosInf\<rparr>) COLOR_SCHEME"
  let ?u = "blankFlower FLOWER_CONFIG (INITIAL_PARAMS\<lparr>align := PosInf\<rparr>) COLOR_SCHEME"
  have "regenerateGeometry ?s =
      (?s\<lparr>faces := spec_faces (config ?s) (palette ?s)
                       (\<lambda>r t. pointOf (gridPoint (config ?s) (params ?s) r t))\<rparr>, Normal)"
    by (rule regenerate_regular)
       (simp_all add: blankFlower_def INITIAL_PARAMS_def FLOWER_CONFIG_def COLOR_SCHEME_def
          regularParams_def nonzero_def)
  moreover have "regenerateGeometry ?u = (?u\<lparr>faces := []\<rparr>, Thrown TypeError)"
    by (rule regenerate_align_infinite)
       (simp_all add: blankFlower_def INITIAL_PARAMS_def FLOWER_CONFIG_def invalidParams_def
          paramValues_def js_isNaN_def)
  ultimately show ?thesis
    by (simp add: spec_faces_length) (simp add: blankFlower_def FLOWER_CONFIG_def)
qed

text \<open>
  C6, amended. Whenever any parameter is \<^verbatim>\<open>NaN\<close> at the time regeneration runs, the
  regeneration is skipped entirely: the state is the previous one but for one more
  warning, which records the parameters (so the face list is retained), and the call
  returns normally.
\<close>

theorem NaN_parameter_skips_regeneration:
  assumes "get_param n (params s) = NaN"
  shows "regenerateGeometry s = (s\<lparr>warnings := warnings s @ [params s]\<rparr>, Normal) \<and>
         faces (fst (regenerateGeometry s)) = faces s"
proof -
  have "invalidParams (params s)" using assms invalid_iff by blast
  then show ?thesis by (simp add: regenerate_invalid)
qed

theorem NaN_parameter_skips_regeneration_witness:
  "regenerateGeometry
     (blankFlower FLOWER_CONFIG (INITIAL_PARAMS\<lparr>curve2 := NaN\<rparr>) COLOR_SCHEME)
   = ((blankFlower FLOWER_CONFIG (INITIAL_PARAMS\<lparr>curve2 := NaN\<rparr>) COLOR_SCHEME)
        \<lparr>warnings := [INITIAL_PARAMS\<lparr>curve2 := NaN\<rparr>]\<rparr>, Normal)"
  using NaN_parameter_skips_regeneration
    [of Curve2 "blankFlower FLOWER_CONFIG (INITIAL_PARAMS\<lparr>curve2 := NaN\<rparr>) COLOR_SCHEME"]
  by (simp add: blankFlower_def)







text \<open>
  C9. With a palette of two colours, a face whose position at the blending stage is \<open>0\<close>
  gets exactly \<open>palette[0]\<close>. For the position \<open>1\<close>, clamped to \<open>0.999\<close>, each channel is
  \<open>0.999\<close> of the way from \<open>palette[0]\<close> to \<open>palette[1]\<close>, and the colour is \<open>palette[1]\<close>
  only if the two entries of the palette are the same colour.
\<close>

theorem two_colour_palette_ends:
  "blendAtPosition [k0, k1] (Fin 0) = Inr (rgbOf ([k0, k1] ! 0)) \<and>
   blendAtPosition [k0, k1] (Fin 1) =
     Inr (rgbOf \<lparr>pr = pr k0 + (pr k1 - pr k0) * 0.999,
                 pg = pg k0 + (pg k1 - pg k0) * 0.999,
                 pb = pb k0 + (pb k1 - pb k0) * 0.999\<rparr>) \<and>
   (blendAtPosition [k0, k1] (Fin 1) = Inr (rgbOf ([k0, k1] ! 1)) \<longleftrightarrow> k0 = k1)"
proof -
  have eq: "k0 = k1 \<longleftrightarrow> pr k0 = pr k1 \<and> pg k0 = pg k1 \<and> pb k0 = pb k1"
    by (cases k0; cases k1) auto
  have "a + (b - a) * 0.999 = b \<longleftrightarrow> a = b" for a b :: real
    by simp argo
  then show ?thesis
    unfolding eq
    by (auto simp add: blendAtPosition_fin spec_blend_two_low spec_blend_two_high rgbOf_def)
qed

theorem two_colour_palette_ends_witness:
  "blendAtPosition [COLOR_SCHEME ! 0, COLOR_SCHEME ! 2] (Fin 0)
     = Inr (rgbOf (COLOR_SCHEME ! 0)) \<and>
   blendAtPosition [COLOR_SCHEME ! 0, COLOR_SCHEME ! 2] (Fin 1)
     \<noteq> Inr (rgbOf (COLOR_SCHEME ! 2))"
  using two_colour_palette_ends[of "COLOR_SCHEME ! 0" "COLOR_SCHEME ! 2"]
  by (simp add: COLOR_SCHEME_def rgbOf_def)

text \<open>
  C10. \<^verbatim>\<open>updateParams({opening: NaN})\<close> stores \<^verbatim>\<open>NaN\<close> although the regeneration it
  triggers aborts: afterwards \<open>opening\<close> is \<^verbatim>\<open>NaN\<close>, the face list is the previous one, one
  warning has been logged and the call has returned normally. Repeating the same update
  is not a no-op: it attempts the regeneration again, which logs a second warning and
  again leaves the face list alone.
\<close>

theorem NaN_update_not_rolled_back:
  "params (fst (updateParams s [(''opening'', NaN)])) = (params s)\<lparr>opening := NaN\<rparr> \<and>
   faces (fst (updateParams s [(''opening'', NaN)])) = faces s \<and>
   snd (updateParams s [(''opening'', NaN)]) = Normal \<and>
   warnings (fst (updateParams s [(''opening'', NaN)]))
     = warnings s @ [(params s)\<lparr>opening := NaN\<rparr>] \<and>
   snd (mergeParams ((params s)\<lparr>opening := NaN\<rparr>) [(''opening'', NaN)] False) \<and>
   params (fst (updateParams (fst (updateParams s [(''opening'', NaN)]))
                  [(''opening'', NaN)])) = (params s)\<lparr>opening := NaN\<rparr> \<and>
   faces (fst (updateParams (fst (updateParams s [(''opening'', NaN)]))
                 [(''opening'', NaN)])) = faces s \<and>
   warnings (fst (updateParams (fst (updateParams s [(''opening'', NaN)]))
                    [(''opening'', NaN)]))
     = warnings s @ [(params s)\<lparr>opening := NaN\<rparr>, (params s)\<lparr>opening := NaN\<rparr>]"
  by (simp add: update_opening_NaN) (simp add: pname_of_def js_sne_def)

theorem NaN_update_not_rolled_back_witness:
  "opening (params (fst (updateParams (blankFlower FLOWER_CONFIG INITIAL_PARAMS COLOR_SCHEME)
                           [(''opening'', NaN)]))) = NaN \<and>
   length (warnings (fst (updateParams
      (fst (updateParams (blankFlower FLOWER_CONFIG INITIAL_PARAMS COLOR_SCHEME)
              [(''opening'', NaN)])) [(''opening'', NaN)]))) = 2"
  using NaN_update_not_rolled_back[of "blankFlower FLOWER_CONFIG INITIAL_PARAMS COLOR_SCHEME"]
  by (simp add: blankFlower_def)

end
